theory Spec2Isabelle
  imports Main "HOL-Library.Word" "HOL-Library.AList"
begin

section \<open>The USB framing protocol of fluxclient (\<open>fluxclient/usb/usb2.py\<close>)\<close>

text \<open>
  The module frames messages over a USB bulk endpoint pair. A frame on the wire is a
  three-byte header (\<open>Struct("<HB")\<close>: a little-endian 16-bit size and a one-byte channel
  index), a payload and one final byte. This theory embeds the module's functions as HOL
  functions over explicit state and proves properties of them.
\<close>

subsection \<open>Bytes and the header packer\<close>

type_synonym byte = "8 word"
type_synonym bytes = "byte list"

text \<open>
  The Python values the module handles besides raw buffers. An \<open>atom\<close> is a hashable
  scalar: \<open>None\<close>, an integer, a \<open>bytes\<close> value or a \<open>str\<close> (an Isabelle string is a
  list of 8-bit characters, so it carries either). An \<open>obj\<close> is what the msgpack codec
  encodes and decodes: an atom or a dictionary keyed by atoms. Dictionaries are maps, so
  that two of them are equal exactly when they hold the same entries, as in Python.
  Atoms also serve as exception arguments and as members of the \<open>symbol\<close> tuple of a
  \<open>FluxUSBError\<close>.
\<close>

datatype atom = ANone | AInt int | ABytes string | AStr string

datatype obj = Atom atom | Dict "atom \<Rightarrow> obj option"

text \<open>
  The exceptions that the modelled functions can raise. \<open>FluxUSBError args symbol\<close> is the
  module's own exception class; the others are raised by the interpreter or by the libraries
  the module calls (\<open>struct.error\<close>, a msgpack decoding failure, \<open>AttributeError\<close>,
  \<open>KeyError\<close>, \<open>TypeError\<close>, \<open>RuntimeError\<close>).
\<close>

datatype error =
    FluxUSBError "atom list" "atom list"
  | StructError
  | UnpackException
  | AttributeError
  | KeyError
  | TypeError
  | RuntimeError string

text \<open>
  \<open>FluxUSBError.__init__\<close>: \<open>self.symbol = kw.get("symbol", ("UNKNOWN_ERROR", ))\<close>.
\<close>

definition default_symbol :: "atom list" where
  "default_symbol = [AStr ''UNKNOWN_ERROR'']"

text \<open>
  \<open>HEAD_PACKER.pack(size, channel)\<close>. The format \<open>H\<close> accepts \<open>0 \<le> size \<le> 65535\<close> and
  raises \<open>struct.error\<close> otherwise; the channel is a byte by its type here.
\<close>

definition HEAD_PACKER_pack :: "nat \<Rightarrow> byte \<Rightarrow> error + bytes" where
  "HEAD_PACKER_pack sz channel =
     (if sz < 65536
      then Inr [of_nat (sz mod 256), of_nat (sz div 256), channel]
      else Inl StructError)"

text \<open>
  \<open>HEAD_PACKER.unpack\<close> on a three-byte slice. The only call site passes \<open>self._buf[:3]\<close>
  under the guard \<open>len(self._buf) > 3\<close>, so the slice always has three bytes.
\<close>

definition HEAD_PACKER_unpack :: "bytes \<Rightarrow> nat \<times> byte" where
  "HEAD_PACKER_unpack b = (unat (b ! 0) + 256 * unat (b ! 1), b ! 2)"

text \<open>
  The expression shared by \<open>send_object\<close>, \<open>send_binary\<close> and \<open>_send_binary_ack\<close>:
  \<open>HEAD_PACKER.pack(len(payload) + 4, channel) + payload + fin\<close>.
\<close>

definition pack_frame :: "byte \<Rightarrow> bytes \<Rightarrow> byte \<Rightarrow> error + bytes" where
  "pack_frame channel payload fin =
     (case HEAD_PACKER_pack (length payload + 4) channel of
        Inl e \<Rightarrow> Inl e
      | Inr head \<Rightarrow> Inr (head @ payload @ [fin]))"

subsection \<open>Frame extraction: \<open>_unpack_buffer\<close>\<close>

text \<open>
  The three shapes of the triple that \<open>_unpack_buffer\<close> returns:
  \<open>(None, None, None)\<close> is \<open>NeedMoreData\<close>, \<open>(-1, None, None)\<close> is \<open>ZeroMarker\<close>, and
  \<open>(channel_idx, buf, fin)\<close> is \<open>Frame channel_idx buf fin\<close>.
\<close>

datatype extracted = NeedMoreData | ZeroMarker | Frame byte bytes byte

text \<open>A slice \<open>b[i:j]\<close> with non-negative bounds.\<close>

definition slice :: "nat \<Rightarrow> nat \<Rightarrow> 'a list \<Rightarrow> 'a list" where
  "slice i j b = take (j - i) (drop i b)"

text \<open>
  \<open>_unpack_buffer\<close>, as a function from the buffer to the returned triple and the new
  buffer.
\<close>

definition unpack_buffer :: "bytes \<Rightarrow> extracted \<times> bytes" where
  "unpack_buffer b =
     (let l = length b in
      if l > 3 then
        (let (sz, channel_idx) = HEAD_PACKER_unpack (slice 0 3 b) in
         if sz = 0 then (ZeroMarker, drop 2 b)
         else if l \<ge> sz then
           (let fin = b ! (sz - 1);
                payload = slice 3 (sz - 1) b
            in (Frame channel_idx payload fin, drop sz b))
         else (NeedMoreData, b))
      else (NeedMoreData, b))"

subsection \<open>The collaborators of the module\<close>

text \<open>
  What the module imports and does not define: the platform's \<open>errno\<close> table
  (\<open>ETIMEDOUT\<close> and \<open>errorcode\<close>), the msgpack codec (\<open>packb\<close>; \<open>unpackb\<close> as called in
  \<open>run_once\<close>; \<open>unpackb_utf8\<close> for the calls with \<open>use_list=False, encoding="utf8"\<close> in the
  handshake; \<open>None\<close> stands for a decoding exception) and the package's \<open>__version__\<close>.
\<close>

record env =
  ETIMEDOUT :: int
  errorcode :: "int \<Rightarrow> string option"
  packb :: "obj \<Rightarrow> bytes"
  unpackb :: "bytes \<Rightarrow> obj option"
  unpackb_utf8 :: "bytes \<Rightarrow> obj option"
  version :: string

text \<open>
  A \<open>usb.core.USBError\<close> with its \<open>errno\<close> attribute (possibly \<open>None\<close>) and its \<open>args\<close>.
  One call of the endpoint's \<open>read\<close> returns bytes or raises; one call of \<open>write\<close>
  succeeds or raises.
\<close>

datatype usberror = USBError (usb_errno: "int option") (usb_args: "atom list")

datatype usb_read = ReadOk bytes | ReadErr usberror

datatype usb_write = WriteOk | WriteErr usberror

subsection \<open>The state: \<open>Channel\<close> and \<open>USBProtocol\<close>\<close>

text \<open>
  A semaphore is its counter. \<open>release\<close> increments it; \<open>acquire(timeout=t)\<close> takes one
  unit and returns \<open>True\<close>, or returns \<open>False\<close> at the timeout when the counter is zero.
\<close>

definition semaphore_release :: "nat \<Rightarrow> nat" where
  "semaphore_release n = Suc n"

definition semaphore_acquire :: "nat \<Rightarrow> bool \<times> nat" where
  "semaphore_acquire n = (if n > 0 then (True, n - 1) else (False, n))"

text \<open>
  A \<open>Channel\<close> object. \<open>binary_stream\<close> is \<open>None\<close> or a sink, modelled by the blocks sent to
  it so far.
\<close>

record channel =
  index :: obj
  obj_semaphore :: nat
  ack_semaphore :: nat
  objq :: "obj list"
  binary_stream :: "bytes list option"
  opened :: bool

text \<open>\<open>Channel.__init__\<close>\<close>

definition new_channel :: "obj \<Rightarrow> channel" where
  "new_channel idx =
     \<lparr>index = idx, obj_semaphore = 0, ack_semaphore = 0, objq = [],
      binary_stream = None, opened = True\<rparr>"

definition on_object :: "obj \<Rightarrow> channel \<Rightarrow> channel" where
  "on_object ob ch =
     ch\<lparr>objq := objq ch @ [ob], obj_semaphore := semaphore_release (obj_semaphore ch)\<rparr>"

definition on_binary :: "bytes \<Rightarrow> channel \<Rightarrow> channel" where
  "on_binary b ch =
     (case binary_stream ch of
        Some sink \<Rightarrow> ch\<lparr>binary_stream := Some (sink @ [b])\<rparr>
      | None \<Rightarrow> ch)"

definition on_binary_ack :: "channel \<Rightarrow> channel" where
  "on_binary_ack ch = ch\<lparr>ack_semaphore := semaphore_release (ack_semaphore ch)\<rparr>"

text \<open>
  A \<open>USBProtocol\<close> object together with the device behind its two endpoints. The device
  is a script: \<open>rx_script k\<close> is the outcome of the \<open>k\<close>-th call of \<open>self._rx.read\<close> and
  \<open>tx_script k\<close> that of the \<open>k\<close>-th call of \<open>self._tx.write\<close>; \<open>tx_sent\<close> lists the buffers
  written successfully, oldest first. \<open>channels\<close> is the dictionary \<open>self.channels\<close> in
  insertion order; its keys are hashable values, hence atoms.
\<close>

record usbprotocol =
  rx_script :: "nat \<Rightarrow> usb_read"
  rx_calls :: nat
  tx_script :: "nat \<Rightarrow> usb_write"
  tx_calls :: nat
  tx_sent :: "bytes list"
  buf :: bytes
  session :: obj
  endpoint_profile :: obj
  running :: bool
  chl_semaphore :: nat
  channels :: "(atom \<times> channel) list"

subsection \<open>Low-level transport: \<open>_send\<close>, \<open>_recv\<close>, \<open>_feed_buffer\<close>\<close>

text \<open>\<open>errorcode.get(e.errno, e.errno)\<close>\<close>

definition errorcode_get :: "env \<Rightarrow> int option \<Rightarrow> atom" where
  "errorcode_get ev eno =
     (case eno of
        None \<Rightarrow> ANone
      | Some n \<Rightarrow> (case errorcode ev n of Some name \<Rightarrow> AStr name | None \<Rightarrow> AInt n))"

text \<open>\<open>_send\<close>\<close>

definition send :: "env \<Rightarrow> bytes \<Rightarrow> usbprotocol \<Rightarrow> (error + unit) \<times> usbprotocol" where
  "send ev b st =
     (case tx_script st (tx_calls st) of
        WriteOk \<Rightarrow>
          (Inr (), st\<lparr>tx_calls := Suc (tx_calls st), tx_sent := tx_sent st @ [b]\<rparr>)
      | WriteErr e \<Rightarrow>
          (if usb_errno e = Some (ETIMEDOUT ev)
           then Inl (FluxUSBError (usb_args e) [AStr ''TIMEOUT''])
           else Inl (FluxUSBError (usb_args e)
                       [AStr ''UNKNOWN_ERROR'', errorcode_get ev (usb_errno e)]),
           st\<lparr>tx_calls := Suc (tx_calls st)\<rparr>))"

text \<open>\<open>_recv\<close>\<close>

definition recv :: "env \<Rightarrow> usbprotocol \<Rightarrow> (error + bytes) \<times> usbprotocol" where
  "recv ev st =
     (case rx_script st (rx_calls st) of
        ReadOk data \<Rightarrow> (Inr data, st\<lparr>rx_calls := Suc (rx_calls st)\<rparr>)
      | ReadErr e \<Rightarrow>
          (if usb_errno e = Some (ETIMEDOUT ev)
           then Inr []
           else Inl (FluxUSBError (usb_args e) default_symbol),
           st\<lparr>rx_calls := Suc (rx_calls st)\<rparr>))"

text \<open>\<open>_feed_buffer\<close>: \<open>self._buf += self._recv(1024, timeout=0.05)\<close>\<close>

definition feed_buffer :: "env \<Rightarrow> usbprotocol \<Rightarrow> (error + unit) \<times> usbprotocol" where
  "feed_buffer ev st =
     (case recv ev st of
        (Inl e, st') \<Rightarrow> (Inl e, st')
      | (Inr data, st') \<Rightarrow> (Inr (), st'\<lparr>buf := buf st' @ data\<rparr>))"

subsection \<open>Sending frames\<close>

text \<open>\<open>_send_binary_ack\<close>: \<open>self._send(HEAD_PACKER.pack(4, channel_idx) + b"\x80")\<close>\<close>

definition send_binary_ack :: "env \<Rightarrow> byte \<Rightarrow> usbprotocol \<Rightarrow> (error + unit) \<times> usbprotocol" where
  "send_binary_ack ev channel_idx st =
     (case HEAD_PACKER_pack 4 channel_idx of
        Inl e \<Rightarrow> (Inl e, st)
      | Inr head \<Rightarrow> send ev (head @ [0x80]) st)"

text \<open>\<open>send_object\<close>: the payload is \<open>msgpack.packb(obj)\<close>, the final byte \<open>b"\xb0"\<close>.\<close>

definition send_object :: "env \<Rightarrow> byte \<Rightarrow> obj \<Rightarrow> usbprotocol \<Rightarrow> (error + unit) \<times> usbprotocol" where
  "send_object ev channel ob st =
     (case pack_frame channel (packb ev ob) 0xb0 of
        Inl e \<Rightarrow> (Inl e, st)
      | Inr b \<Rightarrow> send ev b st)"

text \<open>\<open>send_binary\<close>: the final byte is \<open>b"\xbf"\<close>.\<close>

definition send_binary :: "env \<Rightarrow> byte \<Rightarrow> bytes \<Rightarrow> usbprotocol \<Rightarrow> (error + unit) \<times> usbprotocol" where
  "send_binary ev channel b st =
     (case pack_frame channel b 0xbf of
        Inl e \<Rightarrow> (Inl e, st)
      | Inr b' \<Rightarrow> send ev b' st)"

subsection \<open>Channel control: \<open>_on_channel_ctrl_response\<close> and \<open>open_channel\<close>\<close>

text \<open>\<open>obj.get(key)\<close> on a dictionary: \<open>None\<close> for a missing key.\<close>

definition dict_get :: "(atom \<Rightarrow> obj option) \<Rightarrow> atom \<Rightarrow> obj" where
  "dict_get d k = (case d k of None \<Rightarrow> Atom ANone | Some v \<Rightarrow> v)"

text \<open>
  \<open>_on_channel_ctrl_response\<close>. \<open>obj.get\<close> raises \<open>AttributeError\<close> when the decoded
  object is no dictionary; a dictionary as \<open>index\<close> is unhashable (\<open>TypeError\<close>);
  \<open>self.channels.pop(index)\<close> raises \<open>KeyError\<close> for an index that is not registered. The
  branches that only write to the log leave the state as it is. The implicit \<open>close\<close> of
  \<open>Channel.__del__\<close>, which runs when the interpreter collects a \<open>Channel\<close> that was
  replaced or removed, depends on the references held elsewhere and is outside this model.
\<close>

definition on_channel_ctrl_response :: "obj \<Rightarrow> usbprotocol \<Rightarrow> (error + unit) \<times> usbprotocol" where
  "on_channel_ctrl_response ob st =
     (case ob of
        Atom _ \<Rightarrow> (Inl AttributeError, st)
      | Dict d \<Rightarrow>
          (let idx = dict_get d (ABytes ''channel'');
               status = dict_get d (ABytes ''status'');
               action = dict_get d (ABytes ''action'')
           in if action = Atom (ABytes ''open'') then
                (if status = Atom (ABytes ''ok'') then
                   (case idx of
                      Dict _ \<Rightarrow> (Inl TypeError, st)
                    | Atom k \<Rightarrow>
                        (Inr (), st\<lparr>channels := AList.update k (new_channel idx) (channels st),
                                    chl_semaphore := semaphore_release (chl_semaphore st)\<rparr>))
                 else (Inr (), st))
              else if action = Atom (ABytes ''close'') then
                (if status = Atom (ABytes ''ok'') then
                   (case idx of
                      Dict _ \<Rightarrow> (Inl TypeError, st)
                    | Atom k \<Rightarrow>
                        (if k \<in> fst ` set (channels st)
                         then (Inr (), st\<lparr>channels := AList.delete k (channels st)\<rparr>)
                         else (Inl KeyError, st)))
                 else (Inr (), st))
              else (Inr (), st)))"

text \<open>
  The index search of \<open>open_channel\<close>:
  \<^verbatim>\<open>idx = None\<close>, then \<^verbatim>\<open>for i in range(len(self.channels) + 1):\<close>
  \<^verbatim>\<open>if self.channels.get(i) is None: idx = i\<close>. The loop has no \<open>break\<close>.
\<close>

definition scan_index :: "(atom \<times> channel) list \<Rightarrow> atom" where
  "scan_index chs =
     foldl (\<lambda>idx i. if map_of chs (AInt (int i)) = None then AInt (int i) else idx)
       ANone [0 ..< length chs + 1]"

text \<open>
  \<open>open_channel\<close> up to its wait: choose the index and send the request on channel
  \<open>0xf0\<close>. The result is the chosen index.
\<close>

definition open_channel_request :: "env \<Rightarrow> obj \<Rightarrow> usbprotocol \<Rightarrow> (error + atom) \<times> usbprotocol" where
  "open_channel_request ev channel_type st =
     (let idx = scan_index (channels st)
      in case send_object ev 0xf0
             (Dict [AStr ''channel'' \<mapsto> Atom idx,
                    AStr ''action'' \<mapsto> Atom (AStr ''open''),
                    AStr ''type'' \<mapsto> channel_type]) st of
           (Inl e, st') \<Rightarrow> (Inl e, st')
         | (Inr _, st') \<Rightarrow> (Inr idx, st'))"

text \<open>
  \<open>open_channel\<close> from its wait on: \<open>self.chl_semaphore.acquire(timeout=3.0)\<close>, whose result
  is not looked at, then the lookup of the index.
\<close>

definition open_channel_finish :: "atom \<Rightarrow> usbprotocol \<Rightarrow> (error + channel) \<times> usbprotocol" where
  "open_channel_finish idx st =
     (let st' = st\<lparr>chl_semaphore := snd (semaphore_acquire (chl_semaphore st))\<rparr>
      in case map_of (channels st') idx of
           Some ch \<Rightarrow> (Inr ch, st')
         | None \<Rightarrow> (Inl (RuntimeError ''Channel creation failed''), st'))"

text \<open>
  \<open>open_channel\<close>. While the caller waits, the thread that runs the receive loop changes the
  state; \<open>receiver\<close> is that change. (\<open>chl_open_mutex\<close> only keeps two callers apart and is
  left out.)
\<close>

definition open_channel ::
  "env \<Rightarrow> obj \<Rightarrow> (usbprotocol \<Rightarrow> usbprotocol) \<Rightarrow> usbprotocol \<Rightarrow> (error + channel) \<times> usbprotocol" where
  "open_channel ev channel_type receiver st =
     (case open_channel_request ev channel_type st of
        (Inl e, st') \<Rightarrow> (Inl e, st')
      | (Inr idx, st') \<Rightarrow> open_channel_finish idx (receiver st'))"

subsection \<open>The handshake\<close>

text \<open>\<open>_handle_handshake\<close>\<close>

definition handle_handshake :: "env \<Rightarrow> bytes \<Rightarrow> usbprotocol \<Rightarrow> (error + unit) \<times> usbprotocol" where
  "handle_handshake ev b st =
     (case unpackb_utf8 ev b of
        None \<Rightarrow> (Inl UnpackException, st)
      | Some (Atom _) \<Rightarrow> (Inl AttributeError, st)
      | Some (Dict d) \<Rightarrow>
          (let sess = (case d (AStr ''session'') of None \<Rightarrow> Atom (AStr ''?'') | Some v \<Rightarrow> v);
               data = d(AStr ''session'' := None);
               st' = st\<lparr>endpoint_profile := Dict data, session := sess\<rparr>
           in send_object ev 0xfe
                (Dict [AStr ''session'' \<mapsto> sess,
                       AStr ''client'' \<mapsto> Atom (AStr (''fluxclient-'' @ version ev))]) st'))"

text \<open>
  \<open>_final_handshake\<close>. \<open>data["session"]\<close> raises \<open>TypeError\<close> on a value that is no
  dictionary and \<open>KeyError\<close> on a dictionary without the key.
\<close>

definition final_handshake :: "env \<Rightarrow> bytes \<Rightarrow> usbprotocol \<Rightarrow> (error + bool) \<times> usbprotocol" where
  "final_handshake ev b st =
     (case unpackb_utf8 ev b of
        None \<Rightarrow> (Inl UnpackException, st)
      | Some (Atom _) \<Rightarrow> (Inl TypeError, st)
      | Some (Dict d) \<Rightarrow>
          (case d (AStr ''session'') of
             None \<Rightarrow> (Inl KeyError, st)
           | Some v \<Rightarrow>
               (if v = session st then (Inr True, st)
                else (Inr False, st\<lparr>session := Atom ANone\<rparr>))))"

text \<open>
  The inner loop of \<open>do_handshake\<close>: extract until \<open>_unpack_buffer\<close> returns
  \<open>(None, None, None)\<close>, keeping the last triple extracted in \<open>data\<close>.
\<close>

function drain :: "bytes \<Rightarrow> extracted option \<Rightarrow> extracted option \<times> bytes" where
  "drain b data =
     (if fst (unpack_buffer b) = NeedMoreData then (data, snd (unpack_buffer b))
      else drain (snd (unpack_buffer b)) (Some (fst (unpack_buffer b))))"
  by pat_completeness auto
termination
  by (relation "measure (\<lambda>(b, data). length b)")
     (auto simp: unpack_buffer_def HEAD_PACKER_unpack_def Let_def split: if_splits prod.splits)

declare drain.simps [simp del]

text \<open>
  One pass through the body of the outer \<open>while ttl:\<close> loop of \<open>do_handshake\<close>, up to the
  point where the pass ends: by an exception (\<open>Raise\<close>), by \<open>return True\<close> (\<open>Return\<close>), by
  \<open>continue\<close> (\<open>Continue\<close>), or by falling through to \<open>ttl -= 1\<close> (\<open>Retry\<close>).
\<close>

datatype pass = Raise error | Return | Continue | Retry

definition handshake_pass :: "env \<Rightarrow> usbprotocol \<Rightarrow> pass \<times> usbprotocol" where
  "handshake_pass ev st =
     (case feed_buffer ev st of
        (Inl e, st1) \<Rightarrow> (Raise e, st1)
      | (Inr _, st1) \<Rightarrow>
          (case drain (buf st1) None of
             (data, rest) \<Rightarrow>
               (let st2 = st1\<lparr>buf := rest\<rparr>
                in case data of
                     Some (Frame channel_idx b fin) \<Rightarrow>
                       (if channel_idx = 0xff \<and> fin = 0xf0 then
                          (case handle_handshake ev b st2 of
                             (Inl e, st3) \<Rightarrow> (Raise e, st3)
                           | (Inr _, st3) \<Rightarrow> (Continue, st3))
                        else if channel_idx = 0xfd \<and> fin = 0xf0 then
                          (if session st2 \<noteq> Atom ANone then
                             (case final_handshake ev b st2 of
                                (Inl e, st3) \<Rightarrow> (Raise e, st3)
                              | (Inr True, st3) \<Rightarrow> (Return, st3)
                              | (Inr False, st3) \<Rightarrow> (Retry, st3))
                           else (Retry, st2))
                        else (Continue, st2))
                   | Some ZeroMarker \<Rightarrow> (Continue, st2)
                   | Some NeedMoreData \<Rightarrow> (Retry, st2)
                   | None \<Rightarrow> (Retry, st2))))"

text \<open>
  \<open>do_handshake\<close>. The loop need not end (a peer that keeps sending offers keeps it
  going), so the model counts passes: \<open>None\<close> means that \<open>fuel\<close> passes were not enough.
\<close>

fun handshake_loop :: "env \<Rightarrow> nat \<Rightarrow> nat \<Rightarrow> usbprotocol \<Rightarrow> ((error + bool) \<times> usbprotocol) option" where
  "handshake_loop ev fuel 0 st =
     Some (Inl (FluxUSBError [AStr ''Handshake failed.''] default_symbol), st)"
| "handshake_loop ev 0 (Suc t) st = None"
| "handshake_loop ev (Suc fuel) (Suc t) st =
     (case handshake_pass ev st of
        (Raise e, st') \<Rightarrow> Some (Inl e, st')
      | (Return, st') \<Rightarrow> Some (Inr True, st')
      | (Continue, st') \<Rightarrow> handshake_loop ev fuel (Suc t) st'
      | (Retry, st') \<Rightarrow>
          (case send_object ev 0xfc (Atom ANone) st' of
             (Inl e, st'') \<Rightarrow> Some (Inl e, st'')
           | (Inr _, st'') \<Rightarrow> handshake_loop ev fuel t st''))"

definition do_handshake :: "env \<Rightarrow> nat \<Rightarrow> usbprotocol \<Rightarrow> ((error + bool) \<times> usbprotocol) option" where
  "do_handshake ev fuel st = handshake_loop ev fuel 5 st"

text \<open>
  What the \<open>k\<close>-th read adds to the buffer when it does not fail (nothing on a timeout),
  and whether the \<open>k\<close>-th read fails with an error other than a timeout.
\<close>

definition incoming :: "usbprotocol \<Rightarrow> nat \<Rightarrow> bytes" where
  "incoming st k = (case rx_script st k of ReadOk data \<Rightarrow> data | ReadErr e \<Rightarrow> [])"

definition read_fatal :: "env \<Rightarrow> usbprotocol \<Rightarrow> nat \<Rightarrow> bool" where
  "read_fatal ev st k =
     (case rx_script st k of
        ReadOk data \<Rightarrow> False
      | ReadErr e \<Rightarrow> usb_errno e \<noteq> Some (ETIMEDOUT ev))"

subsection \<open>The receive loop: \<open>run_once\<close> and \<open>run\<close>\<close>

text \<open>The two hexadecimal digits of \<open>"%02x" % n\<close> for a byte.\<close>

definition hex02 :: "byte \<Rightarrow> string" where
  "hex02 n = [''0123456789abcdef'' ! (unat n div 16), ''0123456789abcdef'' ! (unat n mod 16)]"

text \<open>\<open>FluxUSBError(message)\<close>, with the default symbol.\<close>

definition flux_error :: "string \<Rightarrow> error" where
  "flux_error m = FluxUSBError [AStr m] default_symbol"

text \<open>
  The dispatch of a frame on a data channel (\<open>channel_idx < 0x80\<close>) in \<open>run_once\<close>, from the
  lookup of the channel on.
\<close>

definition dispatch_data :: "env \<Rightarrow> byte \<Rightarrow> bytes \<Rightarrow> byte \<Rightarrow> usbprotocol \<Rightarrow> (error + unit) \<times> usbprotocol" where
  "dispatch_data ev channel_idx b fin st =
     (let k = AInt (uint channel_idx)
      in case map_of (channels st) k of
           None \<Rightarrow> (Inl (flux_error (''Recv bad channel idx 0x'' @ hex02 channel_idx)), st)
         | Some ch \<Rightarrow>
             (if fin = 0xf0 then
                (case unpackb ev b of
                   None \<Rightarrow> (Inl UnpackException, st)
                 | Some ob \<Rightarrow>
                     (Inr (), st\<lparr>channels := AList.update k (on_object ob ch) (channels st)\<rparr>))
              else if fin = 0xff then
                (case send_binary_ack ev channel_idx st of
                   (Inl e, st') \<Rightarrow> (Inl e, st')
                 | (Inr _, st') \<Rightarrow>
                     (Inr (), st'\<lparr>channels := AList.update k (on_binary b ch) (channels st')\<rparr>))
              else if fin = 0xc0 then
                (Inr (), st\<lparr>channels := AList.update k (on_binary_ack ch) (channels st)\<rparr>)
              else (Inl (flux_error (''Recv bad fin 0x'' @ hex02 fin)), st)))"

text \<open>\<open>run_once\<close>\<close>

definition run_once :: "env \<Rightarrow> usbprotocol \<Rightarrow> (error + unit) \<times> usbprotocol" where
  "run_once ev st =
     (case feed_buffer ev st of
        (Inl e, st1) \<Rightarrow> (Inl e, st1)
      | (Inr _, st1) \<Rightarrow>
          (case unpack_buffer (buf st1) of
             (item, rest) \<Rightarrow>
               (let st2 = st1\<lparr>buf := rest\<rparr>
                in case item of
                     NeedMoreData \<Rightarrow> (Inr (), st2)
                   | ZeroMarker \<Rightarrow> (Inl (flux_error ''USB protocol broken''), st2)
                   | Frame channel_idx b fin \<Rightarrow>
                       (if channel_idx < 0x80 then dispatch_data ev channel_idx b fin st2
                        else if channel_idx = 0xf1 then
                          (if fin \<noteq> 0xf0
                           then (Inl (flux_error (''Recv bad fin 0x'' @ hex02 fin)), st2)
                           else (case unpackb ev b of
                                   None \<Rightarrow> (Inl UnpackException, st2)
                                 | Some ob \<Rightarrow> on_channel_ctrl_response ob st2))
                        else (Inl (flux_error (''Recv bad control channel 0x'' @ hex02 channel_idx)),
                              st2)))))"

text \<open>
  \<open>run\<close>: \<open>self.running = True\<close>, then \<open>run_once\<close> while \<open>self.running\<close>; an exception clears
  \<open>running\<close> and is raised again. Nothing in the loop clears \<open>running\<close> (only \<open>stop\<close>, called
  from another thread, does), so the model counts iterations: \<open>None\<close> means that \<open>fuel\<close>
  iterations passed without an exception.
\<close>

fun run_loop :: "env \<Rightarrow> nat \<Rightarrow> usbprotocol \<Rightarrow> ((error + unit) \<times> usbprotocol) option" where
  "run_loop ev 0 st = (if running st then None else Some (Inr (), st))"
| "run_loop ev (Suc n) st =
     (if running st then
        (case run_once ev st of
           (Inl e, st') \<Rightarrow> Some (Inl e, st'\<lparr>running := False\<rparr>)
         | (Inr _, st') \<Rightarrow> run_loop ev n st')
      else Some (Inr (), st))"

definition run :: "env \<Rightarrow> nat \<Rightarrow> usbprotocol \<Rightarrow> ((error + unit) \<times> usbprotocol) option" where
  "run ev fuel st = run_loop ev fuel (st\<lparr>running := True\<rparr>)"

subsection \<open>A sample environment and device\<close>

text \<open>
  Concrete inputs at which the theorems below are instantiated: a Linux \<open>errno\<close> table
  with two entries, a codec that encodes \<open>None\<close> as msgpack does (\<open>0xc0\<close>) and every other
  object as an empty map (\<open>0x80\<close>) and decodes every payload to an empty dictionary, and a
  freshly constructed protocol object whose device never answers (every read times out)
  and accepts every write.
\<close>

definition sample_env :: env where
  "sample_env =
     \<lparr>ETIMEDOUT = 110,
      errorcode = [5 \<mapsto> ''EIO'', 110 \<mapsto> ''ETIMEDOUT''],
      packb = (\<lambda>ob. if ob = Atom ANone then [0xc0] else [0x80]),
      unpackb = (\<lambda>b. Some (Dict Map.empty)),
      unpackb_utf8 = (\<lambda>b. Some (Dict Map.empty)),
      version = ''1.0''\<rparr>"

definition usb_timeout :: usberror where
  "usb_timeout = USBError (Some 110) [AInt 110, AStr ''Operation timed out'']"

definition usb_eio :: usberror where
  "usb_eio = USBError (Some 5) [AInt 5, AStr ''Input/Output Error'']"

definition silent :: usbprotocol where
  "silent =
     \<lparr>rx_script = (\<lambda>k. ReadErr usb_timeout), rx_calls = 0,
      tx_script = (\<lambda>k. WriteOk), tx_calls = 0, tx_sent = [],
      buf = [], session = Atom ANone, endpoint_profile = Atom ANone,
      running = False, chl_semaphore = 0, channels = []\<rparr>"

text \<open>
  A device that delivers two frames in its first read and is silent afterwards: a control
  response with an empty payload on channel \<open>0xf1\<close>, then a frame on the unassigned
  channel \<open>0x90\<close>.
\<close>

definition burst :: usbprotocol where
  "burst =
     silent\<lparr>rx_script :=
       (\<lambda>k. if k = 0 then ReadOk [4, 0, 0xf1, 0xf0, 4, 0, 0x90, 0xf0] else ReadErr usb_timeout)\<rparr>"

section \<open>Properties of the frame codec\<close>

subsection \<open>Auxiliary facts\<close>

lemma head_roundtrip:
  assumes "n < 65536"
  shows "unat (of_nat (n mod 256) :: byte) + 256 * unat (of_nat (n div 256) :: byte) = n"
proof -
  have "n div 256 < 256" using assms by simp
  then have "unat (of_nat (n div 256) :: byte) = n div 256"
    by (simp add: unat_of_nat)
  moreover have "unat (of_nat (n mod 256) :: byte) = n mod 256"
    by (simp add: unat_of_nat)
  ultimately show ?thesis by simp
qed

lemma slice_0_3: "length b > 3 \<Longrightarrow> slice 0 3 b = [b ! 0, b ! 1, b ! 2]"
  by (cases b; simp add: slice_def; rename_tac x xs; case_tac xs; simp;
      rename_tac y ys; case_tac ys; simp)

lemma unpack_buffer_short: "length b \<le> 3 \<Longrightarrow> unpack_buffer b = (NeedMoreData, b)"
  by (simp add: unpack_buffer_def)

lemma unpack_buffer_long:
  assumes "length b > 3"
  shows "unpack_buffer b =
    (let sz = unat (b ! 0) + 256 * unat (b ! 1) in
     if sz = 0 then (ZeroMarker, drop 2 b)
     else if sz \<le> length b
       then (Frame (b ! 2) (slice 3 (sz - 1) b) (b ! (sz - 1)), drop sz b)
     else (NeedMoreData, b))"
  using assms by (simp add: unpack_buffer_def HEAD_PACKER_unpack_def slice_0_3 Let_def)

lemma unpack_buffer_NeedMoreData: "fst (unpack_buffer b) = NeedMoreData \<Longrightarrow> snd (unpack_buffer b) = b"
  by (cases "length b > 3") (auto simp: unpack_buffer_long unpack_buffer_short Let_def split: if_splits)

lemma pack_frame_Inr:
  assumes "pack_frame ch payload fin = Inr f"
  shows "length payload + 4 < 65536"
    and "f = [of_nat ((length payload + 4) mod 256), of_nat ((length payload + 4) div 256), ch]
             @ payload @ [fin]"
  using assms by (auto simp: pack_frame_def HEAD_PACKER_pack_def split: if_splits)

lemma pack_frame_fits:
  "length payload \<le> 65531 \<Longrightarrow>
   pack_frame ch payload fin =
     Inr ([of_nat ((length payload + 4) mod 256), of_nat ((length payload + 4) div 256), ch]
          @ payload @ [fin])"
  by (simp add: pack_frame_def HEAD_PACKER_pack_def)

lemma pack_frame_too_long:
  "65531 < length payload \<Longrightarrow> pack_frame ch payload fin = Inl StructError"
  by (simp add: pack_frame_def HEAD_PACKER_pack_def)

lemma packed_facts:
  assumes "pack_frame ch payload fin = Inr f"
  shows "length f = length payload + 4"
    and "unat (f ! 0) + 256 * unat (f ! 1) = length payload + 4"
    and "f ! 2 = ch"
    and "slice 3 (3 + length payload) f = payload"
    and "f ! (3 + length payload) = fin"
proof -
  note s = pack_frame_Inr[OF assms]
  let ?h = "[of_nat ((length payload + 4) mod 256) :: byte,
             of_nat ((length payload + 4) div 256), ch]"
  show "length f = length payload + 4" using s(2) by simp
  show "unat (f ! 0) + 256 * unat (f ! 1) = length payload + 4"
    using head_roundtrip[OF s(1)] s(2) by simp
  show "f ! 2 = ch" using s(2) by simp
  show "slice 3 (3 + length payload) f = payload" using s(2) by (simp add: slice_def)
  have "f = (?h @ payload) @ fin # []"
    using s(2) by simp
  then have "f ! length (?h @ payload) = fin"
    by (metis nth_append_length)
  then show "f ! (3 + length payload) = fin" by (simp add: numeral_3_eq_3)
qed

lemma unpack_packed:
  assumes "pack_frame ch payload fin = Inr f"
  shows "unpack_buffer f = (Frame ch payload fin, [])"
proof -
  note p = packed_facts[OF assms]
  have "3 < length f" using p(1) by simp
  then show ?thesis
    using p by (simp add: unpack_buffer_long Let_def)
qed

lemma unpack_packed_prefix:
  assumes "pack_frame ch payload fin = Inr f" and "n < length f"
  shows "unpack_buffer (take n f) = (NeedMoreData, take n f)"
proof (cases "n \<le> 3")
  case True
  then show ?thesis by (simp add: unpack_buffer_short)
next
  case False
  note p = packed_facts[OF assms(1)]
  have l: "3 < length (take n f)" using False assms(2) by simp
  have "take n f ! 0 = f ! 0" "take n f ! 1 = f ! 1" using False by simp_all
  then show ?thesis
    unfolding unpack_buffer_long[OF l] using p(1,2) assms(2) by (simp add: Let_def)
qed

subsection \<open>Round trip\<close>

text \<open>
  Claim C5, as the code has it. For every channel id, every final byte and every payload
  of at most 65531 bytes, packing succeeds and gives the two-byte little-endian size
  \<open>len(payload) + 4\<close>, the channel id, the payload and the final byte; extraction from a
  buffer holding exactly these bytes gives back the channel id, the payload and the final
  byte and leaves the buffer empty.
\<close>

theorem pack_frame_roundtrip:
  assumes "length payload \<le> 65531"
  shows "pack_frame ch payload fin =
           Inr ([of_nat ((length payload + 4) mod 256),
                 of_nat ((length payload + 4) div 256), ch] @ payload @ [fin]) \<and>
         unpack_buffer ([of_nat ((length payload + 4) mod 256),
                 of_nat ((length payload + 4) div 256), ch] @ payload @ [fin])
           = (Frame ch payload fin, [])"
  using pack_frame_fits[OF assms, of ch fin] unpack_packed[of ch payload fin] by simp

theorem pack_frame_roundtrip_witness:
  "pack_frame 1 [7, 8] 0xbf = Inr [6, 0, 1, 7, 8, 0xbf] \<and>
   unpack_buffer [6, 0, 1, 7, 8, 0xbf] = (Frame 1 [7, 8] 0xbf, [])"
  using pack_frame_roundtrip[of "[7, 8]" 1 "0xbf"] by simp

text \<open>
  Claim C5 as stated, for every payload, fails: the size field holds at most 65535, and
  packing a payload of 65532 bytes raises \<open>struct.error\<close>, so that there are no bytes to
  extract from.
\<close>

theorem pack_frame_oversize_counterexample:
  "pack_frame 0 (replicate 65532 0) 0xbf = Inl StructError"
  by (simp add: pack_frame_def HEAD_PACKER_pack_def)

subsection \<open>The zero-size marker\<close>

text \<open>
  Claim C6. A buffer whose first two bytes are zero (a size field that reads as 0),
  followed by at least two further bytes, yields the zero-size marker; exactly the first
  two bytes are removed, and the byte in the channel-id position becomes the first byte of
  the remaining buffer.
\<close>

theorem unpack_buffer_zero_marker:
  "unpack_buffer (0 # 0 # c # d # rest) = (ZeroMarker, c # d # rest)"
  by (simp add: unpack_buffer_long Let_def)

subsection \<open>Partial delivery\<close>

text \<open>
  Claim C7. For every packed frame, extraction on every strict prefix of its bytes signals
  need-more-data and leaves the buffer as it is, and extraction on all of its bytes
  returns the frame; every buffer of exactly three bytes is need-more-data.
\<close>

theorem unpack_buffer_partial_delivery:
  assumes "pack_frame ch payload fin = Inr f"
  shows "(\<forall>n < length f. unpack_buffer (take n f) = (NeedMoreData, take n f)) \<and>
         unpack_buffer f = (Frame ch payload fin, []) \<and>
         (\<forall>b. length b = 3 \<longrightarrow> unpack_buffer b = (NeedMoreData, b))"
  using unpack_packed_prefix[OF assms] unpack_packed[OF assms]
  by (simp add: unpack_buffer_short)

theorem unpack_buffer_partial_delivery_witness:
  "pack_frame 1 [7] 0xb0 = Inr [5, 0, 1, 7, 0xb0] \<and>
   unpack_buffer [5, 0, 1, 7] = (NeedMoreData, [5, 0, 1, 7]) \<and>
   unpack_buffer [5, 0, 1, 7, 0xb0] = (Frame 1 [7] 0xb0, []) \<and>
   unpack_buffer [5, 0, 1] = (NeedMoreData, [5, 0, 1])"
proof -
  have p: "pack_frame 1 [7] 0xb0 = Inr [5, 0, 1, 7, 0xb0]"
    by (simp add: pack_frame_def HEAD_PACKER_pack_def)
  note t = unpack_buffer_partial_delivery[OF p]
  have "unpack_buffer (take 4 [5, 0, 1, 7, 0xb0]) = (NeedMoreData, take 4 [5, 0, 1, 7, 0xb0])"
    using t[THEN conjunct1, rule_format, of 4] by simp
  then have a: "unpack_buffer [5, 0, 1, 7] = (NeedMoreData, [5, 0, 1, 7])"
    by simp
  have b: "unpack_buffer [5, 0, 1, 7, 0xb0] = (Frame 1 [7] 0xb0, [])"
    using t[THEN conjunct2, THEN conjunct1] .
  have c: "unpack_buffer [5, 0, 1] = (NeedMoreData, [5, 0, 1])"
    using t[THEN conjunct2, THEN conjunct2, rule_format, of "[5, 0, 1]"] by simp
  show ?thesis using p a b c by simp
qed

subsection \<open>Sizes below the header length\<close>

text \<open>
  Claim C10. A buffer of at least four bytes whose size field reads 1, 2 or 3 is neither
  refused nor held back: extraction returns a frame with an empty payload whose final byte
  is a byte of the header itself (the low size byte for size 1, the high size byte for
  size 2, the channel id for size 3) and removes only that many bytes.
\<close>

theorem unpack_buffer_undersized:
  "unpack_buffer (1 # 0 # c # d # rest) = (Frame c [] 1, 0 # c # d # rest) \<and>
   unpack_buffer (2 # 0 # c # d # rest) = (Frame c [] 0, c # d # rest) \<and>
   unpack_buffer (3 # 0 # c # d # rest) = (Frame c [] c, d # rest)"
  by (simp add: unpack_buffer_long Let_def slice_def)

section \<open>Properties of the transport functions\<close>

subsection \<open>The outcomes of \<open>_send\<close> and \<open>_recv\<close>\<close>

lemma send_WriteOk:
  "tx_script st (tx_calls st) = WriteOk \<Longrightarrow>
   send ev b st = (Inr (), st\<lparr>tx_calls := Suc (tx_calls st), tx_sent := tx_sent st @ [b]\<rparr>)"
  by (simp add: send_def)

lemma send_timeout:
  "tx_script st (tx_calls st) = WriteErr e \<Longrightarrow> usb_errno e = Some (ETIMEDOUT ev) \<Longrightarrow>
   send ev b st = (Inl (FluxUSBError (usb_args e) [AStr ''TIMEOUT'']), st\<lparr>tx_calls := Suc (tx_calls st)\<rparr>)"
  by (simp add: send_def)

lemma send_fatal:
  "tx_script st (tx_calls st) = WriteErr e \<Longrightarrow> usb_errno e \<noteq> Some (ETIMEDOUT ev) \<Longrightarrow>
   send ev b st = (Inl (FluxUSBError (usb_args e) [AStr ''UNKNOWN_ERROR'', errorcode_get ev (usb_errno e)]),
      st\<lparr>tx_calls := Suc (tx_calls st)\<rparr>)"
  by (simp add: send_def)

lemma recv_timeout:
  "rx_script st (rx_calls st) = ReadErr e \<Longrightarrow> usb_errno e = Some (ETIMEDOUT ev) \<Longrightarrow>
   recv ev st = (Inr [], st\<lparr>rx_calls := Suc (rx_calls st)\<rparr>)"
  by (simp add: recv_def)

lemma recv_fatal:
  "rx_script st (rx_calls st) = ReadErr e \<Longrightarrow> usb_errno e \<noteq> Some (ETIMEDOUT ev) \<Longrightarrow>
   recv ev st = (Inl (FluxUSBError (usb_args e) [AStr ''UNKNOWN_ERROR'']), st\<lparr>rx_calls := Suc (rx_calls st)\<rparr>)"
  by (simp add: recv_def default_symbol_def)

text \<open>
  Claim C9 asks that a fatal failure carries \<open>UNKNOWN_ERROR\<close> together with the platform
  error code on the read path as on the write path. The lemmas above give the four
  outcomes: \<open>_send\<close> attaches \<open>("TIMEOUT",)\<close> or \<open>("UNKNOWN_ERROR", code)\<close>, \<open>_recv\<close> returns
  empty bytes on a timeout, and on a fatal failure \<open>_recv\<close> raises with the default symbol
  \<open>("UNKNOWN_ERROR",)\<close>, without the code. The theorem evaluates both paths at the same
  failure, \<open>EIO\<close>.
\<close>

theorem recv_fatal_symbol_without_code:
  "fst (recv sample_env (silent\<lparr>rx_script := (\<lambda>k. ReadErr usb_eio)\<rparr>)) =
     Inl (FluxUSBError [AInt 5, AStr ''Input/Output Error''] [AStr ''UNKNOWN_ERROR'']) \<and>
   fst (send sample_env [4, 0, 0, 0x80] (silent\<lparr>tx_script := (\<lambda>k. WriteErr usb_eio)\<rparr>)) =
     Inl (FluxUSBError [AInt 5, AStr ''Input/Output Error''] [AStr ''UNKNOWN_ERROR'', AStr ''EIO''])"
  by (simp add: recv_def send_def sample_env_def silent_def usb_eio_def default_symbol_def errorcode_get_def)

subsection \<open>The final byte of the frames sent\<close>

text \<open>
  Claim C1, as the code has it. When the endpoint accepts the write, \<open>send_object\<close> sends
  one frame that ends with \<open>0xb0\<close>, \<open>send_binary\<close> one frame that ends with \<open>0xbf\<close> (each
  for a payload that fits the size field), and \<open>_send_binary_ack\<close> the four bytes
  \<open>04 00 channel 80\<close>. Each of the three final bytes is the value the receive loop
  tests for (\<open>0xf0\<close>, \<open>0xff\<close>, \<open>0xc0\<close>) with bit \<open>0x40\<close> cleared.
\<close>

theorem emitted_frames_final_byte:
  assumes "tx_script st (tx_calls st) = WriteOk"
  shows "(length (packb ev ob) \<le> 65531 \<longrightarrow>
            (\<exists>head. length head = 3 \<and>
               send_object ev ch ob st =
                 (Inr (), st\<lparr>tx_calls := Suc (tx_calls st),
                             tx_sent := tx_sent st @ [head @ packb ev ob @ [0xb0]]\<rparr>))) \<and>
         (length b \<le> 65531 \<longrightarrow>
            (\<exists>head. length head = 3 \<and>
               send_binary ev ch b st =
                 (Inr (), st\<lparr>tx_calls := Suc (tx_calls st),
                             tx_sent := tx_sent st @ [head @ b @ [0xbf]]\<rparr>))) \<and>
         send_binary_ack ev ch st =
           (Inr (), st\<lparr>tx_calls := Suc (tx_calls st),
                       tx_sent := tx_sent st @ [[4, 0, ch, 0x80]]\<rparr>)"
proof (intro conjI impI)
  assume l: "length (packb ev ob) \<le> 65531"
  show "\<exists>head. length head = 3 \<and>
               send_object ev ch ob st =
                 (Inr (), st\<lparr>tx_calls := Suc (tx_calls st),
                             tx_sent := tx_sent st @ [head @ packb ev ob @ [0xb0]]\<rparr>)"
    using pack_frame_fits[OF l, of ch "0xb0"] send_WriteOk[OF assms]
    by (intro exI[of _ "[of_nat ((length (packb ev ob) + 4) mod 256), of_nat ((length (packb ev ob) + 4) div 256), ch]"]) (simp add: send_object_def)
next
  assume l: "length b \<le> 65531"
  show "\<exists>head. length head = 3 \<and>
               send_binary ev ch b st =
                 (Inr (), st\<lparr>tx_calls := Suc (tx_calls st),
                             tx_sent := tx_sent st @ [head @ b @ [0xbf]]\<rparr>)"
    using pack_frame_fits[OF l, of ch "0xbf"] send_WriteOk[OF assms]
    by (intro exI[of _ "[of_nat ((length b + 4) mod 256), of_nat ((length b + 4) div 256), ch]"]) (simp add: send_binary_def)
next
  show "send_binary_ack ev ch st =
           (Inr (), st\<lparr>tx_calls := Suc (tx_calls st),
                       tx_sent := tx_sent st @ [[4, 0, ch, 0x80]]\<rparr>)"
    using send_WriteOk[OF assms] by (simp add: send_binary_ack_def HEAD_PACKER_pack_def)
qed

theorem emitted_frames_final_byte_witness:
  "tx_script silent (tx_calls silent) = WriteOk \<and>
   tx_sent (snd (send_object sample_env 0 (Atom ANone) silent)) = [[5, 0, 0, 0xc0, 0xb0]] \<and>
   tx_sent (snd (send_binary sample_env 0 [1] silent)) = [[5, 0, 0, 1, 0xbf]] \<and>
   tx_sent (snd (send_binary_ack sample_env 0 silent)) = [[4, 0, 0, 0x80]]"
proof -
  have w: "tx_script silent (tx_calls silent) = WriteOk" by (simp add: silent_def)
  note t = emitted_frames_final_byte[OF w, where ev = sample_env and ob = "Atom ANone"
      and b = "[1]" and ch = 0]
  show ?thesis
    using w t
    by (simp add: send_object_def send_binary_def pack_frame_def HEAD_PACKER_pack_def send_def sample_env_def silent_def)
qed

text \<open>
  Claim C1 as stated (final byte \<open>0xf0\<close> for \<open>send_object\<close>, \<open>0xff\<close> for \<open>send_binary\<close>)
  fails on the frames sent for \<open>None\<close> on channel 0 and for the one-byte block \<open>01\<close>.
\<close>

theorem emitted_final_byte_counterexample:
  "tx_sent (snd (send_object sample_env 0 (Atom ANone) silent)) = [[5, 0, 0, 0xc0, 0xb0]] \<and>
   last [5, 0, 0, 0xc0, 0xb0] \<noteq> (0xf0 :: byte) \<and>
   tx_sent (snd (send_binary sample_env 0 [1] silent)) = [[5, 0, 0, 1, 0xbf]] \<and>
   last [5, 0, 0, 1, 0xbf] \<noteq> (0xff :: byte)"
  by (simp add: send_object_def send_binary_def pack_frame_def HEAD_PACKER_pack_def send_def sample_env_def silent_def)

section \<open>Properties of channel control\<close>

subsection \<open>The index chosen by \<open>open_channel\<close>\<close>

lemma scan_foldl:
  fixes chs :: "(atom \<times> channel) list"
  defines "step \<equiv> (\<lambda>idx i. if map_of chs (AInt (int i)) = None then AInt (int i) else idx)"
  shows "((\<forall>i<m. map_of chs (AInt (int i)) \<noteq> None) \<and> foldl step a [0..<m] = a) \<or>
         (\<exists>i<m. foldl step a [0..<m] = AInt (int i) \<and> map_of chs (AInt (int i)) = None \<and>
            (\<forall>j. i < j \<and> j < m \<longrightarrow> map_of chs (AInt (int j)) \<noteq> None))"
proof (induction m)
  case 0
  then show ?case by simp
next
  case (Suc m)
  show ?case
  proof (cases "map_of chs (AInt (int m)) = None")
    case True
    then have "foldl step a [0..<Suc m] = AInt (int m)" by (simp add: step_def)
    with True show ?thesis by (intro disjI2 exI[of _ m]) auto
  next
    case False
    then have e: "foldl step a [0..<Suc m] = foldl step a [0..<m]" by (auto simp: step_def)
    from Suc show ?thesis
    proof
      assume "(\<forall>i<m. map_of chs (AInt (int i)) \<noteq> None) \<and> foldl step a [0..<m] = a"
      with False e show ?thesis by (auto simp: less_Suc_eq)
    next
      assume "\<exists>i<m. foldl step a [0..<m] = AInt (int i) \<and> map_of chs (AInt (int i)) = None \<and>
            (\<forall>j. i < j \<and> j < m \<longrightarrow> map_of chs (AInt (int j)) \<noteq> None)"
      then obtain i where i: "i < m" "foldl step a [0..<m] = AInt (int i)"
        "map_of chs (AInt (int i)) = None"
        "\<forall>j. i < j \<and> j < m \<longrightarrow> map_of chs (AInt (int j)) \<noteq> None" by blast
      have "\<forall>j. i < j \<and> j < Suc m \<longrightarrow> map_of chs (AInt (int j)) \<noteq> None"
        using i(4) False by (auto simp: less_Suc_eq)
      with i e show ?thesis by (intro disjI2 exI[of _ i]) auto
    qed
  qed
qed

lemma some_index_free:
  fixes chs :: "(atom \<times> channel) list"
  shows "\<exists>i<length chs + 1. map_of chs (AInt (int i)) = None"
proof (rule ccontr)
  assume "\<not> ?thesis"
  then have all: "\<forall>i<length chs + 1. AInt (int i) \<in> fst ` set chs"
    by (auto simp: map_of_eq_None_iff)
  let ?f = "\<lambda>i. AInt (int i)"
  have "?f ` {0..<length chs + 1} \<subseteq> fst ` set chs" using all by auto
  then have "card (?f ` {0..<length chs + 1}) \<le> card (fst ` set chs)"
    by (intro card_mono) auto
  moreover have "card (?f ` {0..<length chs + 1}) = length chs + 1"
    by (subst card_image) (auto simp: inj_on_def)
  moreover have "card (fst ` set chs) \<le> length chs"
    by (metis card_image_le card_length le_trans List.finite_set)
  ultimately show False by simp
qed

lemma scan_index_highest_free:
  "\<exists>i \<le> length chs. scan_index chs = AInt (int i) \<and> map_of chs (AInt (int i)) = None \<and>
      (\<forall>j. i < j \<and> j \<le> length chs \<longrightarrow> map_of chs (AInt (int j)) \<noteq> None)"
  using scan_foldl[of "length chs + 1" chs ANone] some_index_free[of chs]
  unfolding scan_index_def by (auto simp: less_Suc_eq_le)

text \<open>
  Claim C2, as the code has it. For every state of the channel map, the index that
  \<open>open_channel\<close> chooses is an integer \<open>i\<close> with \<open>0 \<le> i \<le> len(self.channels)\<close> that is
  not a key of the map, and it is the highest such integer: the loop has no \<open>break\<close>, so
  the last free index of the range wins. When the endpoint accepts the write, the request
  sent on channel \<open>0xf0\<close> is the encoding of
  \<open>{"channel": i, "action": "open", "type": channel_type}\<close> for exactly that \<open>i\<close>.
\<close>

theorem open_channel_request_index:
  "\<exists>i \<le> length (channels st).
     scan_index (channels st) = AInt (int i) \<and>
     map_of (channels st) (AInt (int i)) = None \<and>
     (\<forall>j. i < j \<and> j \<le> length (channels st) \<longrightarrow> map_of (channels st) (AInt (int j)) \<noteq> None) \<and>
     (tx_script st (tx_calls st) = WriteOk \<and>
      length (packb ev (Dict [AStr ''channel'' \<mapsto> Atom (AInt (int i)),
                              AStr ''action'' \<mapsto> Atom (AStr ''open''),
                              AStr ''type'' \<mapsto> channel_type])) \<le> 65531 \<longrightarrow>
      (\<exists>head. length head = 3 \<and> head ! 2 = 0xf0 \<and>
         open_channel_request ev channel_type st =
           (Inr (AInt (int i)),
            st\<lparr>tx_calls := Suc (tx_calls st),
               tx_sent := tx_sent st @
                 [head @ packb ev (Dict [AStr ''channel'' \<mapsto> Atom (AInt (int i)),
                                         AStr ''action'' \<mapsto> Atom (AStr ''open''),
                                         AStr ''type'' \<mapsto> channel_type]) @ [0xb0]]\<rparr>)))"
proof -
  from scan_index_highest_free[of "channels st"] obtain i where i:
    "i \<le> length (channels st)" "scan_index (channels st) = AInt (int i)"
    "map_of (channels st) (AInt (int i)) = None"
    "\<forall>j. i < j \<and> j \<le> length (channels st) \<longrightarrow> map_of (channels st) (AInt (int j)) \<noteq> None"
    by blast
  let ?req = "Dict [AStr ''channel'' \<mapsto> Atom (AInt (int i)),
                    AStr ''action'' \<mapsto> Atom (AStr ''open''),
                    AStr ''type'' \<mapsto> channel_type]"
  let ?head = "[of_nat ((length (packb ev ?req) + 4) mod 256),
                of_nat ((length (packb ev ?req) + 4) div 256), 0xf0] :: bytes"
  have "open_channel_request ev channel_type st =
           (Inr (AInt (int i)),
            st\<lparr>tx_calls := Suc (tx_calls st),
               tx_sent := tx_sent st @ [?head @ packb ev ?req @ [0xb0]]\<rparr>)"
    if w: "tx_script st (tx_calls st) = WriteOk" and l: "length (packb ev ?req) \<le> 65531"
    using pack_frame_fits[OF l, of "0xf0" "0xb0"] send_WriteOk[OF w] i(2)
    by (simp add: open_channel_request_def send_object_def Let_def)
  then have "tx_script st (tx_calls st) = WriteOk \<and> length (packb ev ?req) \<le> 65531 \<longrightarrow>
      (\<exists>head. length head = 3 \<and> head ! 2 = 0xf0 \<and>
         open_channel_request ev channel_type st =
           (Inr (AInt (int i)),
            st\<lparr>tx_calls := Suc (tx_calls st),
               tx_sent := tx_sent st @ [head @ packb ev ?req @ [0xb0]]\<rparr>))"
    by (intro impI exI[of _ ?head]) simp
  with i show ?thesis by blast
qed

theorem open_channel_request_index_witness:
  "open_channel_request sample_env (Atom (AStr ''robot''))
     (silent\<lparr>channels := [(AInt 0, new_channel (Atom (AInt 0)))]\<rparr>) =
   (Inr (AInt 1),
    silent\<lparr>channels := [(AInt 0, new_channel (Atom (AInt 0)))], tx_calls := 1,
           tx_sent := [[5, 0, 0xf0, 0x80, 0xb0]]\<rparr>)"
proof -
  let ?st = "silent\<lparr>channels := [(AInt 0, new_channel (Atom (AInt 0)))]\<rparr>"
  let ?ct = "Atom (AStr ''robot'')"
  from open_channel_request_index[of ?st sample_env ?ct] obtain i where i:
    "scan_index (channels ?st) = AInt (int i)"
    "tx_script ?st (tx_calls ?st) = WriteOk \<and>
      length (packb sample_env (Dict [AStr ''channel'' \<mapsto> Atom (AInt (int i)),
                              AStr ''action'' \<mapsto> Atom (AStr ''open''),
                              AStr ''type'' \<mapsto> ?ct])) \<le> 65531 \<longrightarrow>
      (\<exists>head. length head = 3 \<and> head ! 2 = 0xf0 \<and>
         open_channel_request sample_env ?ct ?st =
           (Inr (AInt (int i)),
            ?st\<lparr>tx_calls := Suc (tx_calls ?st),
               tx_sent := tx_sent ?st @
                 [head @ packb sample_env (Dict [AStr ''channel'' \<mapsto> Atom (AInt (int i)),
                                         AStr ''action'' \<mapsto> Atom (AStr ''open''),
                                         AStr ''type'' \<mapsto> ?ct]) @ [0xb0]]\<rparr>))"
    by blast
  have "scan_index (channels ?st) = AInt 1"
    by (simp add: scan_index_def upt_rec)
  with i(1) have i1: "int i = 1" by simp
  have w: "tx_script ?st (tx_calls ?st) = WriteOk" by (simp add: silent_def)
  have l: "length (packb sample_env (Dict [AStr ''channel'' \<mapsto> Atom (AInt (int i)),
                              AStr ''action'' \<mapsto> Atom (AStr ''open''),
                              AStr ''type'' \<mapsto> ?ct])) \<le> 65531"
    by (simp add: sample_env_def)
  from i(2) w l obtain head where h: "length head = 3"
    "open_channel_request sample_env ?ct ?st =
           (Inr (AInt (int i)),
            ?st\<lparr>tx_calls := Suc (tx_calls ?st),
               tx_sent := tx_sent ?st @
                 [head @ packb sample_env (Dict [AStr ''channel'' \<mapsto> Atom (AInt (int i)),
                                         AStr ''action'' \<mapsto> Atom (AStr ''open''),
                                         AStr ''type'' \<mapsto> ?ct]) @ [0xb0]]\<rparr>)"
    by blast
  have "fst (open_channel_request sample_env ?ct ?st) = Inr (AInt 1)"
    using h(2) i1 by simp
  moreover have "snd (open_channel_request sample_env ?ct ?st) =
     silent\<lparr>channels := [(AInt 0, new_channel (Atom (AInt 0)))], tx_calls := 1,
           tx_sent := [[5, 0, 0xf0, 0x80, 0xb0]]\<rparr>"
    by (simp add: open_channel_request_def scan_index_def upt_rec send_object_def
        pack_frame_def HEAD_PACKER_pack_def send_def sample_env_def silent_def)
  ultimately show ?thesis by (simp add: prod_eq_iff)
qed

text \<open>
  Claim C2 as stated (the lowest index not in the map) fails when an index below the
  chosen one is free. With channels 0, 1 and 2 open and then 0 and 1 closed, the map holds
  the key 2 only; the request names index 1, although 0 is free.
\<close>

theorem open_channel_not_lowest_counterexample:
  "fst (open_channel_request sample_env (Atom (AStr ''robot''))
          (silent\<lparr>channels := [(AInt 2, new_channel (Atom (AInt 2)))]\<rparr>)) = Inr (AInt 1) \<and>
   map_of (channels (silent\<lparr>channels := [(AInt 2, new_channel (Atom (AInt 2)))]\<rparr>)) (AInt 0) = None"
  by (simp add: open_channel_request_def scan_index_def upt_rec send_object_def
        pack_frame_def HEAD_PACKER_pack_def send_def sample_env_def silent_def)

subsection \<open>A failed open\<close>

lemma open_ok_registers_and_releases:
  assumes "dict_get d (ABytes ''action'') = Atom (ABytes ''open'')"
    and "dict_get d (ABytes ''status'') = Atom (ABytes ''ok'')"
    and "dict_get d (ABytes ''channel'') = Atom k"
  shows "on_channel_ctrl_response (Dict d) st =
    (Inr (), st\<lparr>channels := AList.update k (new_channel (Atom k)) (channels st),
               chl_semaphore := Suc (chl_semaphore st)\<rparr>)"
  using assms by (simp add: on_channel_ctrl_response_def Let_def semaphore_release_def)

text \<open>
  Claim C3, as the code has it. A control response with action \<open>open\<close> and a status other
  than \<open>ok\<close> is written to the log and changes nothing: no channel is registered and
  \<open>chl_semaphore\<close> is not released (only the \<open>ok\<close> branch releases it, see
  \<open>open_ok_registers_and_releases\<close>). An opener that waits on the semaphore at 0 for an
  index that is not registered is therefore not woken by the response: its \<open>acquire\<close>
  returns \<open>False\<close> at the timeout, and \<open>open_channel\<close> raises
  \<open>RuntimeError("Channel creation failed")\<close>.
\<close>

theorem open_failure_changes_nothing:
  assumes "dict_get d (ABytes ''action'') = Atom (ABytes ''open'')"
    and "dict_get d (ABytes ''status'') \<noteq> Atom (ABytes ''ok'')"
  shows "on_channel_ctrl_response (Dict d) st = (Inr (), st) \<and>
         (chl_semaphore st = 0 \<and> map_of (channels st) idx = None \<longrightarrow>
            fst (semaphore_acquire (chl_semaphore (snd (on_channel_ctrl_response (Dict d) st))))
              = False \<and>
            fst (open_channel_finish idx (snd (on_channel_ctrl_response (Dict d) st)))
              = Inl (RuntimeError ''Channel creation failed''))"
proof -
  have e: "on_channel_ctrl_response (Dict d) st = (Inr (), st)"
    using assms by (simp add: on_channel_ctrl_response_def Let_def)
  show ?thesis
    unfolding e by (simp add: semaphore_acquire_def open_channel_finish_def)
qed

theorem open_failure_changes_nothing_witness:
  "on_channel_ctrl_response
     (Dict [ABytes ''channel'' \<mapsto> Atom (AInt 0), ABytes ''status'' \<mapsto> Atom (ABytes ''error''),
            ABytes ''action'' \<mapsto> Atom (ABytes ''open'')]) silent = (Inr (), silent) \<and>
   fst (open_channel_finish (AInt 0) (snd (on_channel_ctrl_response
     (Dict [ABytes ''channel'' \<mapsto> Atom (AInt 0), ABytes ''status'' \<mapsto> Atom (ABytes ''error''),
            ABytes ''action'' \<mapsto> Atom (ABytes ''open'')]) silent)))
     = Inl (RuntimeError ''Channel creation failed'')"
proof -
  let ?d = "[ABytes ''channel'' \<mapsto> Atom (AInt 0), ABytes ''status'' \<mapsto> Atom (ABytes ''error''),
            ABytes ''action'' \<mapsto> Atom (ABytes ''open'')]"
  have a: "dict_get ?d (ABytes ''action'') = Atom (ABytes ''open'')"
    by (simp add: dict_get_def)
  have s: "dict_get ?d (ABytes ''status'') \<noteq> Atom (ABytes ''ok'')"
    by (simp add: dict_get_def)
  have c: "chl_semaphore silent = 0 \<and> map_of (channels silent) (AInt 0) = None"
    by (simp add: silent_def)
  from open_failure_changes_nothing[OF a s, of silent "AInt 0"] c show ?thesis
    by blast
qed

text \<open>
  Claim C3 as stated (the handler releases one waiter) fails: before and after the
  handling of an \<open>open\<close> response with status \<open>error\<close> the semaphore stands at 0, so the
  opener's \<open>acquire\<close> still finds nothing to take.
\<close>

theorem open_failure_no_release_counterexample:
  "chl_semaphore silent = 0 \<and>
   chl_semaphore (snd (on_channel_ctrl_response
     (Dict [ABytes ''channel'' \<mapsto> Atom (AInt 0), ABytes ''status'' \<mapsto> Atom (ABytes ''error''),
            ABytes ''action'' \<mapsto> Atom (ABytes ''open'')]) silent)) = 0"
  by (simp add: on_channel_ctrl_response_def dict_get_def Let_def silent_def)

section \<open>Properties of the handshake\<close>

lemma recv_not_fatal:
  "\<not> read_fatal ev st (rx_calls st) \<Longrightarrow>
   recv ev st = (Inr (incoming st (rx_calls st)), st\<lparr>rx_calls := Suc (rx_calls st)\<rparr>)"
  by (auto simp: recv_def read_fatal_def incoming_def split: usb_read.splits)

lemma drain_nothing:
  "fst (unpack_buffer b) = NeedMoreData \<Longrightarrow> drain b data = (data, b)"
  using unpack_buffer_NeedMoreData[of b] by (simp add: drain.simps[of b data])

lemma handshake_pass_quiet:
  assumes "\<not> read_fatal ev st (rx_calls st)"
    and "fst (unpack_buffer (buf st @ incoming st (rx_calls st))) = NeedMoreData"
  shows "handshake_pass ev st =
     (Retry, st\<lparr>rx_calls := Suc (rx_calls st), buf := buf st @ incoming st (rx_calls st)\<rparr>)"
  using assms
  by (simp add: handshake_pass_def feed_buffer_def recv_not_fatal drain_nothing)

lemma handshake_loop_quiet:
  assumes "\<forall>k. \<not> read_fatal ev st k"
    and "\<forall>n. fst (unpack_buffer (buf st @
            concat (map (incoming st) [rx_calls st ..< rx_calls st + Suc n]))) = NeedMoreData"
    and "\<forall>k. tx_script st k = WriteOk"
    and "pack_frame 0xfc (packb ev (Atom ANone)) 0xb0 = Inr p"
    and "t \<le> fuel"
  shows "\<exists>st'. handshake_loop ev fuel t st =
            Some (Inl (FluxUSBError [AStr ''Handshake failed.''] default_symbol), st') \<and>
          tx_sent st' = tx_sent st @ replicate t p \<and>
          rx_calls st' = rx_calls st + t"
  using assms
proof (induction t arbitrary: st fuel)
  case 0
  then show ?case by simp
next
  case (Suc t)
  then obtain f where f: "fuel = Suc f" "t \<le> f" by (cases fuel) auto
  let ?k = "rx_calls st"
  let ?st1 = "st\<lparr>rx_calls := Suc ?k, buf := buf st @ incoming st ?k\<rparr>"
  let ?st2 = "?st1\<lparr>tx_calls := Suc (tx_calls st), tx_sent := tx_sent st @ [p]\<rparr>"
  have u0: "fst (unpack_buffer (buf st @ incoming st ?k)) = NeedMoreData"
    using Suc.prems(2)[rule_format, of 0] by simp
  have p: "handshake_pass ev st = (Retry, ?st1)"
    using handshake_pass_quiet[of ev st] Suc.prems(1) u0 by simp
  have s: "send_object ev 0xfc (Atom ANone) ?st1 = (Inr (), ?st2)"
    using Suc.prems(3,4) by (simp add: send_object_def send_WriteOk)
  have i: "incoming ?st2 = incoming st" by (rule ext) (simp add: incoming_def)
  have h1: "\<forall>k. \<not> read_fatal ev ?st2 k" using Suc.prems(1) by (simp add: read_fatal_def)
  have h2: "\<forall>n. fst (unpack_buffer (buf ?st2 @
            concat (map (incoming ?st2) [rx_calls ?st2 ..< rx_calls ?st2 + Suc n]))) = NeedMoreData"
  proof
    fix n
    have "[?k ..< ?k + Suc (Suc n)] = ?k # [Suc ?k ..< Suc ?k + Suc n]"
      by (simp add: upt_conv_Cons)
    then show "fst (unpack_buffer (buf ?st2 @
            concat (map (incoming ?st2) [rx_calls ?st2 ..< rx_calls ?st2 + Suc n]))) = NeedMoreData"
      using Suc.prems(2)[rule_format, of "Suc n"] by (simp add: i)
  qed
  have h3: "\<forall>k. tx_script ?st2 k = WriteOk" using Suc.prems(3) by simp
  from Suc.IH[OF h1 h2 h3 Suc.prems(4) f(2)] obtain st' where st':
    "handshake_loop ev f t ?st2 =
       Some (Inl (FluxUSBError [AStr ''Handshake failed.''] default_symbol), st')"
    "tx_sent st' = tx_sent ?st2 @ replicate t p"
    "rx_calls st' = rx_calls ?st2 + t"
    by blast
  have "handshake_loop ev fuel (Suc t) st = handshake_loop ev f t ?st2"
    using f(1) p s by simp
  with st' show ?case
    by (intro exI[of _ st']) (simp add: replicate_append_same)
qed

text \<open>
  Claim C4. Suppose that no meaningful peer frame ever arrives: no read fails, and after
  every read the buffer still holds nothing that \<open>_unpack_buffer\<close> can extract. Suppose
  also that the endpoint accepts every write and that the encoding of \<open>None\<close> fits a frame.
  Then \<open>do_handshake\<close> ends after five passes (any bound of at least five passes is
  enough) by raising \<open>FluxUSBError("Handshake failed.")\<close>, and what it has sent by then is
  exactly five copies of the frame that carries \<open>msgpack.packb(None)\<close> on channel \<open>0xfc\<close>.
\<close>

theorem handshake_retry_exhaustion:
  assumes "\<forall>k. \<not> read_fatal ev st k"
    and "\<forall>n. fst (unpack_buffer (buf st @
            concat (map (incoming st) [rx_calls st ..< rx_calls st + Suc n]))) = NeedMoreData"
    and "\<forall>k. tx_script st k = WriteOk"
    and "length (packb ev (Atom ANone)) \<le> 65531"
    and "5 \<le> fuel"
  shows "\<exists>st' p. do_handshake ev fuel st =
            Some (Inl (FluxUSBError [AStr ''Handshake failed.''] default_symbol), st') \<and>
          pack_frame 0xfc (packb ev (Atom ANone)) 0xb0 = Inr p \<and>
          tx_sent st' = tx_sent st @ replicate 5 p"
proof -
  from pack_frame_fits[OF assms(4), of "0xfc" "0xb0"] obtain p where
    p: "pack_frame 0xfc (packb ev (Atom ANone)) 0xb0 = Inr p" by blast
  from handshake_loop_quiet[OF assms(1,2,3) p assms(5)] p show ?thesis
    unfolding do_handshake_def by blast
qed

theorem handshake_retry_exhaustion_witness:
  "\<exists>st'. do_handshake sample_env 5 silent =
            Some (Inl (FluxUSBError [AStr ''Handshake failed.''] default_symbol), st') \<and>
          tx_sent st' = replicate 5 [5, 0, 0xfc, 0xc0, 0xb0]"
proof -
  have h1: "\<forall>k. \<not> read_fatal sample_env silent k"
    by (simp add: read_fatal_def silent_def usb_timeout_def sample_env_def)
  have i: "incoming silent = (\<lambda>k. [])"
    by (rule ext) (simp add: incoming_def silent_def)
  have h2: "\<forall>n. fst (unpack_buffer (buf silent @
            concat (map (incoming silent) [rx_calls silent ..< rx_calls silent + Suc n]))) = NeedMoreData"
  proof -
    have c: "concat (map (incoming silent) xs) = []" for xs by (simp add: i)
    have b: "buf silent = []" by (simp add: silent_def)
    show ?thesis by (simp add: c b unpack_buffer_short del: upt_Suc)
  qed
  have h3: "\<forall>k. tx_script silent k = WriteOk" by (simp add: silent_def)
  have h4: "length (packb sample_env (Atom ANone)) \<le> 65531" by (simp add: sample_env_def)
  have p: "pack_frame 0xfc (packb sample_env (Atom ANone)) 0xb0 = Inr [5, 0, 0xfc, 0xc0, 0xb0]"
    by (simp add: pack_frame_def HEAD_PACKER_pack_def sample_env_def)
  have t: "tx_sent silent = []" by (simp add: silent_def)
  from handshake_retry_exhaustion[OF h1 h2 h3 h4, of 5] p t show ?thesis
    by auto
qed

section \<open>Properties of the receive loop\<close>

lemma send_not_flux_error: "fst (send ev b st) \<noteq> Inl (flux_error m)"
  by (simp add: send_def flux_error_def default_symbol_def split: usb_write.splits)

lemma send_binary_ack_not_flux_error: "fst (send_binary_ack ev c st) \<noteq> Inl (flux_error m)"
  using send_not_flux_error by (simp add: send_binary_ack_def HEAD_PACKER_pack_def)

lemma ctrl_response_not_flux_error: "fst (on_channel_ctrl_response ob st) \<noteq> Inl (flux_error m)"
  by (cases ob) (auto simp: on_channel_ctrl_response_def Let_def flux_error_def split: obj.splits)

lemma dispatch_data_flux_error:
  "(\<exists>m. fst (dispatch_data ev c b f st) = Inl (flux_error m)) \<longleftrightarrow>
   (map_of (channels st) (AInt (uint c)) = None \<or> (f \<noteq> 0xf0 \<and> f \<noteq> 0xff \<and> f \<noteq> 0xc0))"
proof (cases "map_of (channels st) (AInt (uint c))")
  case None
  then show ?thesis by (simp add: dispatch_data_def flux_error_def)
next
  case (Some ch)
  have "fst (case send_binary_ack ev c st of
              (Inl e, st') \<Rightarrow> (Inl e, st')
            | (Inr x, st') \<Rightarrow> (Inr (), st'\<lparr>channels := AList.update (AInt (uint c)) (on_binary b ch) (channels st')\<rparr>))
        \<noteq> Inl (flux_error m)" for m
    using send_binary_ack_not_flux_error[of ev c st m]
    by (cases "send_binary_ack ev c st") (auto split: sum.splits)
  with Some show ?thesis
    by (auto simp: dispatch_data_def Let_def flux_error_def split: option.splits)
qed

lemma run_once_after_read:
  assumes "fst (recv ev st) = Inr data"
  shows "run_once ev st =
    (let st2 = (snd (recv ev st))\<lparr>buf := snd (unpack_buffer (buf st @ data))\<rparr>
     in case fst (unpack_buffer (buf st @ data)) of
          NeedMoreData \<Rightarrow> (Inr (), st2)
        | ZeroMarker \<Rightarrow> (Inl (flux_error ''USB protocol broken''), st2)
        | Frame c b f \<Rightarrow>
            (if c < 0x80 then dispatch_data ev c b f st2
             else if c = 0xf1 then
               (if f \<noteq> 0xf0 then (Inl (flux_error (''Recv bad fin 0x'' @ hex02 f)), st2)
                else (case unpackb ev b of None \<Rightarrow> (Inl UnpackException, st2)
                      | Some ob \<Rightarrow> on_channel_ctrl_response ob st2))
             else (Inl (flux_error (''Recv bad control channel 0x'' @ hex02 c)), st2)))"
proof -
  obtain r where r: "recv ev st = (Inr data, r)" using assms by (cases "recv ev st") auto
  obtain item rest where u: "unpack_buffer (buf st @ data) = (item, rest)"
    by (cases "unpack_buffer (buf st @ data)") auto
  have b: "buf r = buf st"
    using r by (auto simp: recv_def split: usb_read.splits if_splits)
  show ?thesis
    using r b u
    by (cases item) (simp_all add: run_once_def feed_buffer_def Let_def split: option.splits)
qed

lemma recv_state: "snd (recv ev st) = st\<lparr>rx_calls := Suc (rx_calls st)\<rparr>"
  by (simp add: recv_def split: usb_read.splits)

lemma recv_keeps:
  "buf (snd (recv ev st)) = buf st" "channels (snd (recv ev st)) = channels st"
  "tx_sent (snd (recv ev st)) = tx_sent st" "chl_semaphore (snd (recv ev st)) = chl_semaphore st"
  by (auto simp: recv_def split: usb_read.splits)

lemma run_loop_error_clears_running:
  "run_loop ev fuel st = Some (Inl e, st') \<Longrightarrow> \<not> running st'"
proof (induction fuel arbitrary: st)
  case 0
  then show ?case by (simp split: if_splits)
next
  case (Suc n)
  then show ?case
    by (cases "run_once ev st") (auto split: if_splits sum.splits)
qed

text \<open>
  Claim C8, as the code has it. Take an iteration of the receive loop whose read does not
  fail, and let the item be what \<open>_unpack_buffer\<close> extracts from the buffer after the
  read. The iteration raises a protocol error (a \<open>FluxUSBError\<close> with a message and the
  default symbol) exactly when the item is the zero-size marker, a frame on a channel below
  \<open>0x80\<close> that has no registered \<open>Channel\<close>, a frame on a channel below \<open>0x80\<close> whose
  final byte is none of \<open>0xf0\<close>, \<open>0xff\<close>, \<open>0xc0\<close>, a frame on channel \<open>0xf1\<close> whose final
  byte is not \<open>0xf0\<close>, or a frame on any other channel. When the extraction signals
  need-more-data, the iteration ends with no error and changes nothing but the read count
  and the buffer, which has grown by the bytes read. An exception raised by an iteration
  of a running loop ends \<open>run\<close> with that exception and \<open>running\<close> cleared.
\<close>

theorem run_once_protocol_errors:
  assumes "fst (recv ev st) = Inr data"
  shows "((\<exists>m. fst (run_once ev st) = Inl (flux_error m)) \<longleftrightarrow>
          (fst (unpack_buffer (buf st @ data)) = ZeroMarker \<or>
           (\<exists>c b f. fst (unpack_buffer (buf st @ data)) = Frame c b f \<and>
              (c < 0x80 \<and> map_of (channels st) (AInt (uint c)) = None \<or>
               c < 0x80 \<and> f \<noteq> 0xf0 \<and> f \<noteq> 0xff \<and> f \<noteq> 0xc0 \<or>
               c = 0xf1 \<and> f \<noteq> 0xf0 \<or>
               \<not> c < 0x80 \<and> c \<noteq> 0xf1)))) \<and>
         (fst (unpack_buffer (buf st @ data)) = NeedMoreData \<longrightarrow>
            run_once ev st =
              (Inr (), st\<lparr>rx_calls := Suc (rx_calls st), buf := buf st @ data\<rparr>)) \<and>
         (\<forall>e st' n. running st \<and> run_once ev st = (Inl e, st') \<longrightarrow>
            run_loop ev (Suc n) st = Some (Inl e, st'\<lparr>running := False\<rparr>))"
proof (intro conjI)
  let ?st2 = "(snd (recv ev st))\<lparr>buf := snd (unpack_buffer (buf st @ data))\<rparr>"
  have ch: "channels ?st2 = channels st" by (simp add: recv_keeps)
  show "(\<exists>m. fst (run_once ev st) = Inl (flux_error m)) \<longleftrightarrow>
          (fst (unpack_buffer (buf st @ data)) = ZeroMarker \<or>
           (\<exists>c b f. fst (unpack_buffer (buf st @ data)) = Frame c b f \<and>
              (c < 0x80 \<and> map_of (channels st) (AInt (uint c)) = None \<or>
               c < 0x80 \<and> f \<noteq> 0xf0 \<and> f \<noteq> 0xff \<and> f \<noteq> 0xc0 \<or>
               c = 0xf1 \<and> f \<noteq> 0xf0 \<or>
               \<not> c < 0x80 \<and> c \<noteq> 0xf1)))"
  proof (cases "fst (unpack_buffer (buf st @ data))")
    case NeedMoreData
    then show ?thesis by (simp add: run_once_after_read[OF assms] Let_def)
  next
    case ZeroMarker
    then show ?thesis by (simp add: run_once_after_read[OF assms] Let_def flux_error_def)
  next
    case (Frame c b f)
    consider (data) "c < 0x80" | (ctrl) "\<not> c < 0x80" "c = 0xf1" | (other) "\<not> c < 0x80" "c \<noteq> 0xf1"
      by blast
    then show ?thesis
    proof cases
      case data
      then have "c \<noteq> 0xf1" by auto
      with data show ?thesis
        using Frame dispatch_data_flux_error[of ev c b f ?st2] ch
        by (simp add: run_once_after_read[OF assms] Let_def)
    next
      case ctrl
      then show ?thesis
        using Frame ctrl_response_not_flux_error[of _ ?st2]
        by (auto simp: run_once_after_read[OF assms] Let_def flux_error_def split: option.splits)
    next
      case other
      then show ?thesis
        using Frame by (simp add: run_once_after_read[OF assms] Let_def flux_error_def)
    qed
  qed
next
  show "fst (unpack_buffer (buf st @ data)) = NeedMoreData \<longrightarrow>
            run_once ev st =
              (Inr (), st\<lparr>rx_calls := Suc (rx_calls st), buf := buf st @ data\<rparr>)"
    using unpack_buffer_NeedMoreData[of "buf st @ data"]
    by (simp add: run_once_after_read[OF assms] Let_def recv_state)
next
  show "\<forall>e st' n. running st \<and> run_once ev st = (Inl e, st') \<longrightarrow>
            run_loop ev (Suc n) st = Some (Inl e, st'\<lparr>running := False\<rparr>)"
    by simp
qed

theorem run_once_protocol_errors_witness:
  "fst (recv sample_env (silent\<lparr>buf := [0, 0, 0, 0], running := True\<rparr>)) = Inr [] \<and>
   (\<exists>m. fst (run_once sample_env (silent\<lparr>buf := [0, 0, 0, 0], running := True\<rparr>)) =
          Inl (flux_error m)) \<and>
   (\<exists>m st'. run_loop sample_env 1 (silent\<lparr>buf := [0, 0, 0, 0], running := True\<rparr>) =
          Some (Inl (flux_error m), st'))"
proof -
  let ?st = "silent\<lparr>buf := [0, 0, 0, 0], running := True\<rparr>"
  have r: "fst (recv sample_env ?st) = Inr []"
    by (simp add: recv_def silent_def usb_timeout_def sample_env_def)
  have u: "unpack_buffer (buf ?st @ []) = (ZeroMarker, [0, 0])"
    by (simp add: unpack_buffer_long Let_def)
  note t = run_once_protocol_errors[OF r]
  from t[THEN conjunct1] u obtain m where m: "fst (run_once sample_env ?st) = Inl (flux_error m)"
    by auto
  then obtain st' where s: "run_once sample_env ?st = (Inl (flux_error m), st')"
    by (cases "run_once sample_env ?st") auto
  have "running ?st" by simp
  with t[THEN conjunct2, THEN conjunct2, rule_format, of "flux_error m" st' 0] s
  have "run_loop sample_env 1 ?st = Some (Inl (flux_error m), st'\<lparr>running := False\<rparr>)"
    by simp
  with r m show ?thesis by blast
qed

text \<open>
  Claim C8 as stated says that an empty read ends the iteration with no dispatch and no
  error. It does not: \<open>run_once\<close> extracts one item per iteration, so after a read that
  delivered two frames the second one waits in the buffer. The first iteration on the
  device \<open>burst\<close> handles the control response; the read of the second iteration is empty,
  and the iteration still extracts the waiting frame and raises.
\<close>

theorem empty_read_dispatches_counterexample:
  "run_once sample_env burst = (Inr (), burst\<lparr>rx_calls := 1, buf := [4, 0, 0x90, 0xf0]\<rparr>) \<and>
   fst (recv sample_env (burst\<lparr>rx_calls := 1, buf := [4, 0, 0x90, 0xf0]\<rparr>)) = Inr [] \<and>
   fst (run_once sample_env (burst\<lparr>rx_calls := 1, buf := [4, 0, 0x90, 0xf0]\<rparr>)) =
     Inl (flux_error ''Recv bad control channel 0x90'')"
proof (intro conjI)
  have r0: "fst (recv sample_env burst) = Inr [4, 0, 0xf1, 0xf0, 4, 0, 0x90, 0xf0]"
    by (simp add: recv_def burst_def silent_def)
  have u0: "unpack_buffer [4, 0, 0xf1, 0xf0, 4, 0, 0x90, 0xf0] = (Frame 0xf1 [] 0xf0, [4, 0, 0x90, 0xf0])"
    by (simp add: unpack_buffer_long Let_def slice_def)
  have b0: "buf burst = []" by (simp add: burst_def silent_def)
  have s0: "snd (recv sample_env burst) = burst\<lparr>rx_calls := 1\<rparr>"
    by (simp add: recv_def burst_def silent_def)
  show "run_once sample_env burst = (Inr (), burst\<lparr>rx_calls := 1, buf := [4, 0, 0x90, 0xf0]\<rparr>)"
    unfolding run_once_after_read[OF r0] b0 s0
    by (simp add: u0 on_channel_ctrl_response_def dict_get_def sample_env_def)
  let ?st = "burst\<lparr>rx_calls := 1, buf := [4, 0, 0x90, 0xf0]\<rparr>"
  show r1: "fst (recv sample_env ?st) = Inr []"
    by (simp add: recv_def burst_def silent_def usb_timeout_def sample_env_def)
  have u1: "unpack_buffer [4, 0, 0x90, 0xf0] = (Frame 0x90 [] 0xf0, [])"
    by (simp add: unpack_buffer_long Let_def slice_def)
  have b1: "buf ?st = [4, 0, 0x90, 0xf0]" by simp
  show "fst (run_once sample_env ?st) = Inl (flux_error ''Recv bad control channel 0x90'')"
    unfolding run_once_after_read[OF r1] b1
    by (simp add: u1 hex02_def)
qed

end
